theory Spec2Isabelle
  imports Complex_Main "HOL-Library.Word"
begin

section \<open>ECMAScript values used by \<open>src/lib/helpers.ts\<close>\<close>

text \<open>
  The file under verification is

  \<^verbatim>\<open>
  export function generateReadingTime(text: string): string {
    const wordsPerMinute = 200;
    const noOfWords = text.split(/\s/g).length;
    const minutes = noOfWords / wordsPerMinute;
    const readTime = Math.ceil(minutes);
    return `${readTime} minute read`;
  }
  \<close>

  An ECMAScript string is a finite sequence of 16-bit code units; the regular
  expression has no \<open>u\<close> flag, so it is matched against code units, not code points.
\<close>

type_synonym code_unit = "16 word"
type_synonym js_string = "code_unit list"

text \<open>A source literal made of ASCII characters, as the string value it denotes.\<close>

definition lit :: "string \<Rightarrow> js_string" where
  "lit s = map of_char s"

text \<open>
  The character class \<open>\s\<close>: the code units of \<open>WhiteSpace\<close> (TAB, VT, FF, ZWNBSP and
  the Unicode category \<open>Zs\<close>) and of \<open>LineTerminator\<close> (LF, CR, LS, PS).
\<close>

definition is_ws :: "code_unit \<Rightarrow> bool" where
  "is_ws c \<longleftrightarrow>
     c = 0x0009 \<or> c = 0x000A \<or> c = 0x000B \<or> c = 0x000C \<or> c = 0x000D \<or> c = 0x0020 \<or>
     c = 0x00A0 \<or> c = 0x1680 \<or> (0x2000 \<le> c \<and> c \<le> 0x200A) \<or> c = 0x2028 \<or>
     c = 0x2029 \<or> c = 0x202F \<or> c = 0x205F \<or> c = 0x3000 \<or> c = 0xFEFF"

text \<open>The substring of \<open>S\<close> from index \<open>p\<close> (inclusive) to index \<open>q\<close> (exclusive).\<close>

definition substring :: "js_string \<Rightarrow> nat \<Rightarrow> nat \<Rightarrow> js_string" where
  "substring S p q = take (q - p) (drop p S)"

subsection \<open>RegExp objects and the store\<close>

text \<open>
  The only mutable state the function comes near is the \<open>lastIndex\<close> property of RegExp
  objects: the literal \<open>/\s/g\<close> evaluates to a new RegExp object at every evaluation, and
  \<open>split\<close> builds a second one (the splitter, with the sticky flag added) on which it
  sets \<open>lastIndex\<close> and runs the matcher. Both objects carry the pattern \<open>\s\<close>, so an
  object is modelled by its \<open>lastIndex\<close>; the store is the list of RegExp objects
  allocated so far, an object's address being its position.
\<close>

record regexp =
  lastIndex :: nat

type_synonym store = "regexp list"

text \<open>Allocation of a RegExp object: \<open>lastIndex\<close> starts at 0.\<close>

definition new_RegExp :: "store \<Rightarrow> nat \<times> store" where
  "new_RegExp h = (length h, h @ [\<lparr>lastIndex = 0\<rparr>])"

text \<open>
  \<open>RegExpBuiltinExec(R, S)\<close> for the pattern \<open>\s\<close> on an object whose flags contain
  \<open>y\<close> (sticky): the match is attempted at \<open>lastIndex\<close> only. A failure resets
  \<open>lastIndex\<close> to 0 and yields null (\<open>None\<close>); a success stores the end index of the match
  in \<open>lastIndex\<close> and yields the match, of which only the end index is kept here.
\<close>

definition RegExpExec :: "nat \<Rightarrow> js_string \<Rightarrow> store \<Rightarrow> nat option \<times> store" where
  "RegExpExec R S h =
     (let i = lastIndex (h ! R) in
      if i > length S then (None, h[R := (h ! R)\<lparr>lastIndex := 0\<rparr>])
      else if i < length S \<and> is_ws (S ! i)
        then (Some (i + 1), h[R := (h ! R)\<lparr>lastIndex := i + 1\<rparr>])
        else (None, h[R := (h ! R)\<lparr>lastIndex := 0\<rparr>]))"

text \<open>
  The loop of \<open>RegExp.prototype[Symbol.split]\<close> (steps 18 to 23): \<open>p\<close> is the start of the
  token being read, \<open>q\<close> the index examined, \<open>A\<close> the array of tokens so far. Without the
  \<open>u\<close> flag \<open>AdvanceStringIndex(S, q)\<close> is \<open>q + 1\<close>. The pattern has no capture group, so
  nothing but the token is pushed. The loop is defined as a partial function: \<open>None\<close>
  stands for a loop that does not return.
\<close>

partial_function (option) split_loop ::
  "js_string \<Rightarrow> nat \<Rightarrow> nat \<Rightarrow> nat \<Rightarrow> js_string list \<Rightarrow> store \<Rightarrow> (js_string list \<times> store) option"
where
  "split_loop S splitter p q A h =
     (if q < length S then
        (case RegExpExec splitter S (h[splitter := (h ! splitter)\<lparr>lastIndex := q\<rparr>]) of
           (None, h') \<Rightarrow> split_loop S splitter p (q + 1) A h'
         | (Some z, h') \<Rightarrow>
             (let e = min (lastIndex (h' ! splitter)) (length S) in
              if e = p then split_loop S splitter p (q + 1) A h'
              else split_loop S splitter e e (A @ [substring S p q]) h'))
      else Some (A @ [substring S p (length S)], h))"

declare split_loop.simps [code]

text \<open>
  \<open>String.prototype.split(separator)\<close> with a RegExp separator \<open>rx\<close> and no limit, that
  is \<open>RegExp.prototype[Symbol.split]\<close>: a new splitter object is constructed from \<open>rx\<close>
  (whose \<open>lastIndex\<close> is neither read nor written); the empty string is a case of its
  own (steps 15.a to 15.d); otherwise the loop runs from \<open>p = q = 0\<close>. With no limit
  argument the array may hold \<open>2^32 - 1\<close> tokens; the engines bound the length of a
  string below \<open>2^31\<close>, so that bound is never reached and the loop has no test for it.
\<close>

definition String_split :: "js_string \<Rightarrow> nat \<Rightarrow> store \<Rightarrow> (js_string list \<times> store) option" where
  "String_split S rx h =
     (case new_RegExp h of (splitter, h1) \<Rightarrow>
        if S = [] then
          (case RegExpExec splitter S h1 of
             (Some z, h2) \<Rightarrow> Some ([], h2)
           | (None, h2) \<Rightarrow> Some ([S], h2))
        else split_loop S splitter 0 0 [] h1)"

subsection \<open>Numbers\<close>

text \<open>
  \<open>noOfWords\<close> is an integer below \<open>2^32\<close> (an array length), so the double
  \<open>noOfWords / 200\<close> lies strictly between the same two consecutive integers as the
  exact quotient, or is the exact quotient when that is an integer: the rounding error
  of the division is far below \<open>1/200\<close>. \<open>Math.ceil\<close> of the double is therefore the
  ceiling of the exact quotient, and the arithmetic is modelled on the reals.
\<close>

definition Math_ceil :: "real \<Rightarrow> int" where
  "Math_ceil x = \<lceil>x\<rceil>"

text \<open>
  \<open>Number::toString\<close> of an integer of magnitude below \<open>10^21\<close>, which is what the
  template literal applies to \<open>readTime\<close>: the decimal digits, most significant first,
  without leading zeros, after a minus sign for a negative number.
\<close>

definition digit :: "nat \<Rightarrow> code_unit" where
  "digit d = 0x0030 + of_nat d"

fun decimal :: "nat \<Rightarrow> js_string" where
  "decimal n = (if n < 10 then [digit n] else decimal (n div 10) @ [digit (n mod 10)])"

declare decimal.simps [simp del]

definition Number_toString :: "int \<Rightarrow> js_string" where
  "Number_toString n = (if n < 0 then lit ''-'' @ decimal (nat (- n)) else decimal (nat n))"

section \<open>The function \<open>generateReadingTime\<close>\<close>

text \<open>
  Each \<open>const\<close> of the body is a definition of its own, a function of the argument and of
  the store the call starts in. Evaluating the regular expression literal allocates a
  RegExp object, so every step returns the store with its value; \<open>None\<close> is a call that
  does not return. The function has no \<open>throw\<close>, and on a string argument none of
  \<open>split\<close>, \<open>length\<close>, \<open>/\<close>, \<open>Math.ceil\<close> and the template literal raises.
\<close>

definition wordsPerMinute :: real where
  "wordsPerMinute = 200"

definition noOfWords :: "js_string \<Rightarrow> store \<Rightarrow> (nat \<times> store) option" where
  "noOfWords text h =
     (case new_RegExp h of (rx, h1) \<Rightarrow>
        (case String_split text rx h1 of
           None \<Rightarrow> None
         | Some (A, h2) \<Rightarrow> Some (length A, h2)))"

definition minutes :: "js_string \<Rightarrow> store \<Rightarrow> (real \<times> store) option" where
  "minutes text h =
     (case noOfWords text h of
        None \<Rightarrow> None
      | Some (n, h') \<Rightarrow> Some (real n / wordsPerMinute, h'))"

definition readTime :: "js_string \<Rightarrow> store \<Rightarrow> (int \<times> store) option" where
  "readTime text h =
     (case minutes text h of
        None \<Rightarrow> None
      | Some (m, h') \<Rightarrow> Some (Math_ceil m, h'))"

definition generateReadingTime :: "js_string \<Rightarrow> store \<Rightarrow> (js_string \<times> store) option" where
  "generateReadingTime text h =
     (case readTime text h of
        None \<Rightarrow> None
      | Some (r, h') \<Rightarrow> Some (Number_toString r @ lit '' minute read'', h'))"

text \<open>The value a step returns, without the store.\<close>

definition returns :: "('a \<times> store) option \<Rightarrow> 'a option" where
  "returns r = map_option fst r"

section \<open>Notions used in the claims\<close>

subsection \<open>Splitting at every whitespace code unit\<close>

text \<open>
  What the loop of \<open>split\<close> computes, by recursion on the string: \<open>cur\<close> is the token
  being read, closed at each whitespace code unit.
\<close>

fun tokens_from :: "js_string \<Rightarrow> js_string \<Rightarrow> js_string list" where
  "tokens_from cur [] = [cur]"
| "tokens_from cur (c # cs) =
     (if is_ws c then cur # tokens_from [] cs else tokens_from (cur @ [c]) cs)"

definition tokens :: "js_string \<Rightarrow> js_string list" where
  "tokens S = tokens_from [] S"

text \<open>The number of whitespace code units of a string.\<close>

definition count_ws :: "js_string \<Rightarrow> nat" where
  "count_ws S = length (filter is_ws S)"

subsection \<open>Runs of whitespace and words\<close>

text \<open>
  The tokenization rule in the words of the specification: a run of one or more whitespace
  characters is one separator (the behaviour of a split on \<open>\s+\<close>). A run at the start or
  at the end of the string is a separator too, with an empty token before or after it.
\<close>

fun spec_tokens_from :: "js_string \<Rightarrow> js_string \<Rightarrow> js_string list" where
  "spec_tokens_from cur [] = [cur]"
| "spec_tokens_from cur [c] = (if is_ws c then [cur, []] else [cur @ [c]])"
| "spec_tokens_from cur (c # d # cs) =
     (if is_ws c then
        (if is_ws d then spec_tokens_from cur (d # cs)
         else cur # spec_tokens_from [] (d # cs))
      else spec_tokens_from (cur @ [c]) (d # cs))"

definition spec_word_count :: "js_string \<Rightarrow> nat" where
  "spec_word_count S = length (spec_tokens_from [] S)"

text \<open>The number of maximal runs of whitespace code units: each run is counted at its end.\<close>

fun ws_runs :: "js_string \<Rightarrow> nat" where
  "ws_runs [] = 0"
| "ws_runs [c] = (if is_ws c then 1 else 0)"
| "ws_runs (c # d # cs) = (if is_ws c \<and> \<not> is_ws d then 1 else 0) + ws_runs (d # cs)"

text \<open>The number of whitespace code units that directly follow a whitespace code unit.\<close>

fun ws_adjacent :: "js_string \<Rightarrow> nat" where
  "ws_adjacent [] = 0"
| "ws_adjacent [c] = 0"
| "ws_adjacent (c # d # cs) = (if is_ws c \<and> is_ws d then 1 else 0) + ws_adjacent (d # cs)"

text \<open>
  The number of words in the sense of the glossary, maximal runs of non-whitespace code
  units: each word is counted at its end.
\<close>

fun word_runs :: "js_string \<Rightarrow> nat" where
  "word_runs [] = 0"
| "word_runs [c] = (if is_ws c then 0 else 1)"
| "word_runs (c # d # cs) = (if \<not> is_ws c \<and> is_ws d then 1 else 0) + word_runs (d # cs)"

text \<open>
  A string whose words are separated by exactly one whitespace code unit each: it starts
  and ends with a word and no two whitespace code units are adjacent.
\<close>

definition single_separated :: "js_string \<Rightarrow> bool" where
  "single_separated S \<longleftrightarrow>
     S \<noteq> [] \<and> \<not> is_ws (hd S) \<and> \<not> is_ws (last S) \<and> ws_adjacent S = 0"

subsection \<open>Building inputs from words\<close>

text \<open>A word: a non-empty string without whitespace.\<close>

definition is_word :: "js_string \<Rightarrow> bool" where
  "is_word w \<longleftrightarrow> w \<noteq> [] \<and> count_ws w = 0"

text \<open>The words \<open>ws\<close> with \<open>sep\<close> between each two neighbours (\<open>ws.join(sep)\<close>).\<close>

fun join_with :: "js_string \<Rightarrow> js_string list \<Rightarrow> js_string" where
  "join_with sep [] = []"
| "join_with sep [w] = w"
| "join_with sep (w # v # vs) = w @ sep @ join_with sep (v # vs)"

subsection \<open>The output pattern\<close>

text \<open>
  The pattern \<open>^\d+ minute read$\<close>: \<open>\d\<close> is an ASCII digit. The digits the pattern
  takes are all the leading digits of the string, since the character after them has to
  be the space.
\<close>

definition is_digit :: "code_unit \<Rightarrow> bool" where
  "is_digit c \<longleftrightarrow> 0x0030 \<le> c \<and> c \<le> 0x0039"

definition matches_minute_read :: "js_string \<Rightarrow> bool" where
  "matches_minute_read s \<longleftrightarrow>
     takeWhile is_digit s \<noteq> [] \<and> dropWhile is_digit s = lit '' minute read''"

section \<open>What a call computes\<close>

subsection \<open>The loop of \<open>split\<close>\<close>

lemma substring_snoc:
  "p \<le> q \<Longrightarrow> q < length S \<Longrightarrow> substring S p (Suc q) = substring S p q @ [S ! q]"
  unfolding substring_def
  by (simp add: Suc_diff_le take_Suc_conv_app_nth)

lemma regexp_update [simp]: "(r::regexp)\<lparr>lastIndex := k\<rparr> = \<lparr>lastIndex = k\<rparr>"
  by (cases r) simp

lemma split_loop_tokens:
  "sp < length h \<Longrightarrow> p \<le> q \<Longrightarrow> q \<le> length S \<Longrightarrow>
   \<exists>k. split_loop S sp p q A h =
        Some (A @ tokens_from (substring S p q) (drop q S), h[sp := \<lparr>lastIndex = k\<rparr>])"
proof (induction "length S - q" arbitrary: p q A h)
  case 0
  then have q: "q = length S" by simp
  have "h[sp := \<lparr>lastIndex = lastIndex (h ! sp)\<rparr>] = h"
    by (simp add: list_update_same_conv 0)
  then show ?case
    by (subst split_loop.simps) (auto simp: q intro: exI[of _ "lastIndex (h ! sp)"])
next
  case (Suc n)
  then have lt: "q < length S" by simp
  have dq: "drop q S = S ! q # drop (Suc q) S"
    using lt by (simp add: Cons_nth_drop_Suc)
  have n: "n = length S - Suc q" using Suc.hyps by simp
  show ?case
  proof (cases "is_ws (S ! q)")
    case True
    let ?h' = "h[sp := \<lparr>lastIndex = Suc q\<rparr>]"
    have step: "split_loop S sp p q A h
                = split_loop S sp (Suc q) (Suc q) (A @ [substring S p q]) ?h'"
      using True lt Suc.prems
      by (subst split_loop.simps) (simp add: RegExpExec_def Let_def)
    from Suc.hyps(1)[OF n, of ?h' "Suc q" "A @ [substring S p q]"] Suc.prems lt
    obtain k where "split_loop S sp (Suc q) (Suc q) (A @ [substring S p q]) ?h'
        = Some ((A @ [substring S p q]) @ tokens_from (substring S (Suc q) (Suc q)) (drop (Suc q) S),
                ?h'[sp := \<lparr>lastIndex = k\<rparr>])"
      by auto
    then show ?thesis
      using True by (auto simp: step dq substring_def)
  next
    case False
    let ?h' = "h[sp := \<lparr>lastIndex = 0\<rparr>]"
    have step: "split_loop S sp p q A h = split_loop S sp p (Suc q) A ?h'"
      using False lt Suc.prems
      by (subst split_loop.simps) (simp add: RegExpExec_def Let_def)
    from Suc.hyps(1)[OF n, of ?h' p "A"] Suc.prems lt
    obtain k where "split_loop S sp p (Suc q) A ?h'
        = Some (A @ tokens_from (substring S p (Suc q)) (drop (Suc q) S),
                ?h'[sp := \<lparr>lastIndex = k\<rparr>])"
      by auto
    then show ?thesis
      using False Suc.prems lt by (auto simp: step dq substring_snoc)
  qed
qed

lemma String_split_tokens:
  "\<exists>k. String_split S rx h = Some (tokens S, h @ [\<lparr>lastIndex = k\<rparr>])"
proof (cases "S = []")
  case True
  then show ?thesis
    by (simp add: String_split_def new_RegExp_def RegExpExec_def tokens_def)
next
  case False
  from split_loop_tokens[of "length h" "h @ [\<lparr>lastIndex = 0\<rparr>]" 0 0 S "[]"]
  obtain k where "split_loop S (length h) 0 0 [] (h @ [\<lparr>lastIndex = 0\<rparr>])
      = Some (tokens_from (substring S 0 0) (drop 0 S), (h @ [\<lparr>lastIndex = 0\<rparr>])[length h := \<lparr>lastIndex = k\<rparr>])"
    by auto
  then show ?thesis
    using False by (auto simp: String_split_def new_RegExp_def tokens_def substring_def)
qed

subsection \<open>The steps of the body\<close>

text \<open>
  Every step returns. The store a call returns is the store it started in, followed by the
  two RegExp objects of the call: the one of the literal and the splitter.
\<close>

lemma length_tokens_from: "length (tokens_from cur S) = count_ws S + 1"
  by (induction S arbitrary: cur) (simp_all add: count_ws_def)

lemma length_tokens: "length (tokens S) = count_ws S + 1"
  by (simp add: tokens_def length_tokens_from)

lemma noOfWords_eq:
  "\<exists>k. noOfWords text h = Some (count_ws text + 1, h @ [\<lparr>lastIndex = 0\<rparr>, \<lparr>lastIndex = k\<rparr>])"
proof -
  obtain k where "String_split text (length h) (h @ [\<lparr>lastIndex = 0\<rparr>])
      = Some (tokens text, (h @ [\<lparr>lastIndex = 0\<rparr>]) @ [\<lparr>lastIndex = k\<rparr>])"
    using String_split_tokens by blast
  then show ?thesis
    by (simp add: noOfWords_def new_RegExp_def length_tokens)
qed

lemma readTime_eq:
  "\<exists>k. readTime text h =
        Some (\<lceil>real (count_ws text + 1) / 200\<rceil>, h @ [\<lparr>lastIndex = 0\<rparr>, \<lparr>lastIndex = k\<rparr>])"
proof -
  obtain k where "noOfWords text h
      = Some (count_ws text + 1, h @ [\<lparr>lastIndex = 0\<rparr>, \<lparr>lastIndex = k\<rparr>])"
    using noOfWords_eq by blast
  then show ?thesis
    by (simp add: readTime_def minutes_def Math_ceil_def wordsPerMinute_def)
qed

lemma generateReadingTime_eq:
  "\<exists>k. generateReadingTime text h =
        Some (Number_toString \<lceil>real (count_ws text + 1) / 200\<rceil> @ lit '' minute read'',
              h @ [\<lparr>lastIndex = 0\<rparr>, \<lparr>lastIndex = k\<rparr>])"
proof -
  obtain k where "readTime text h
      = Some (\<lceil>real (count_ws text + 1) / 200\<rceil>, h @ [\<lparr>lastIndex = 0\<rparr>, \<lparr>lastIndex = k\<rparr>])"
    using readTime_eq by blast
  then show ?thesis
    by (simp add: generateReadingTime_def)
qed

lemma returns_noOfWords: "returns (noOfWords t h) = Some (count_ws t + 1)"
  using noOfWords_eq[of t h] by (auto simp: returns_def)

lemma returns_readTime: "returns (readTime t h) = Some \<lceil>real (count_ws t + 1) / 200\<rceil>"
  using readTime_eq[of t h] by (auto simp: returns_def)

lemma returns_generateReadingTime:
  "returns (generateReadingTime t h) =
     Some (Number_toString \<lceil>real (count_ws t + 1) / 200\<rceil> @ lit '' minute read'')"
  using generateReadingTime_eq[of t h] by (auto simp: returns_def)

lemma ceil_200: "\<lceil>real n / 200\<rceil> = (int n + 199) div 200"
proof -
  have "\<lceil>real n / 200\<rceil> = \<lceil>real_of_int (int n) / real_of_int 200\<rceil>" by simp
  also have "\<dots> = - (- int n div 200)" by (rule ceiling_divide_eq_div)
  also have "\<dots> = (int n + 199) div 200" by linarith
  finally show ?thesis .
qed

lemma ceil_200_Suc: "\<lceil>real (n + 1) / 200\<rceil> = int (n div 200) + 1"
  unfolding ceil_200 by (simp add: zdiv_int)

subsection \<open>Whitespace, runs and words\<close>

lemma count_ws_runs: "count_ws S = ws_runs S + ws_adjacent S"
  by (induction S rule: ws_runs.induct) (simp_all add: count_ws_def)

lemma length_spec_tokens_from: "length (spec_tokens_from cur S) = ws_runs S + 1"
  by (induction cur S rule: spec_tokens_from.induct) simp_all

lemma spec_word_count_runs: "spec_word_count S = ws_runs S + 1"
  by (simp add: spec_word_count_def length_spec_tokens_from)

lemma word_runs_ws_runs:
  "S \<noteq> [] \<Longrightarrow>
   word_runs S + (if is_ws (hd S) then 1 else 0) = ws_runs S + (if is_ws (last S) then 0 else 1)"
  by (induction S rule: ws_runs.induct) (auto)

lemma single_separated_words: "single_separated S \<Longrightarrow> word_runs S = count_ws S + 1"
  using word_runs_ws_runs[of S] by (simp add: single_separated_def count_ws_runs)

lemma count_ws_append: "count_ws (xs @ ys) = count_ws xs + count_ws ys"
  by (simp add: count_ws_def)

lemma count_ws_join:
  "count_ws (join_with sep ws) = sum_list (map count_ws ws) + (length ws - 1) * count_ws sep"
  by (induction sep ws rule: join_with.induct) (simp_all add: count_ws_append count_ws_def)

lemma sum_list_words: "list_all is_word ws \<Longrightarrow> sum_list (map count_ws ws) = 0"
  by (induction ws) (simp_all add: is_word_def)

subsection \<open>Decimal digits\<close>

lemma digit_cases:
  "d < 10 \<Longrightarrow> d = 0 \<or> d = 1 \<or> d = 2 \<or> d = 3 \<or> d = 4 \<or> d = 5 \<or> d = 6 \<or> d = 7 \<or> d = 8 \<or> d = (9::nat)"
  by arith

lemma is_digit_digit: "d < 10 \<Longrightarrow> is_digit (digit d)"
  using digit_cases[of d] by (auto simp: is_digit_def digit_def)

lemma digit_eq_zero: "d < 10 \<Longrightarrow> digit d = 0x0030 \<Longrightarrow> d = 0"
  using digit_cases[of d] by (auto simp: digit_def)

lemma decimal_digits: "list_all is_digit (decimal n)"
proof (induction n rule: decimal.induct)
  case (1 n)
  show ?case
  proof (cases "n < 10")
    case True
    then show ?thesis by (subst decimal.simps) (simp add: is_digit_digit)
  next
    case False
    with 1 show ?thesis by (subst decimal.simps) (simp add: is_digit_digit)
  qed
qed

lemma decimal_nonempty: "decimal n \<noteq> []"
  by (subst decimal.simps) simp

lemma decimal_single_zero: "decimal n = [0x0030] \<Longrightarrow> n = 0"
proof (cases "n < 10")
  case True
  assume "decimal n = [0x0030]"
  then have "digit n = 0x0030" using True by (subst (asm) decimal.simps) simp
  then show ?thesis using True by (rule digit_eq_zero[rotated])
next
  case False
  assume "decimal n = [0x0030]"
  then have "decimal (n div 10) = []" using False by (subst (asm) decimal.simps) simp
  then show ?thesis by (simp add: decimal_nonempty)
qed

lemma not_digit_space: "\<not> is_digit (0x0020)"
  by (simp add: is_digit_def)

lemma matches_decimal: "matches_minute_read (decimal n @ lit '' minute read'')"
proof -
  have all: "\<forall>c\<in>set (decimal n). is_digit c"
    using decimal_digits[of n] by (simp add: list_all_iff)
  have sp: "lit '' minute read'' = 0x0020 # lit ''minute read''"
    by (simp add: lit_def)
  have "takeWhile is_digit (decimal n @ lit '' minute read'') = decimal n"
    using all by (simp add: sp not_digit_space)
  moreover have "dropWhile is_digit (decimal n @ lit '' minute read'') = lit '' minute read''"
    using all by (simp add: sp not_digit_space)
  ultimately show ?thesis
    by (simp add: matches_minute_read_def decimal_nonempty)
qed

lemma readTime_pos: "1 \<le> \<lceil>real (n + 1) / 200\<rceil>"
  unfolding ceil_200_Suc by simp

subsection \<open>Inputs built from words, and labels\<close>

lemma count_ws_space: "count_ws (lit '' '') = 1"
  by (simp add: count_ws_def lit_def is_ws_def)

lemma count_ws_join_words:
  "list_all is_word ws \<Longrightarrow> count_ws (join_with (lit '' '') ws) = length ws - 1"
  by (simp add: count_ws_join sum_list_words count_ws_space)

lemma count_ws_join_replicate:
  "count_ws (join_with sep (replicate n w)) = n * count_ws w + (n - 1) * count_ws sep"
  by (simp add: count_ws_join sum_list_replicate)

lemma is_word_w: "is_word (lit ''word'')"
  by (simp add: is_word_def count_ws_def lit_def is_ws_def)

lemma label_1: "Number_toString 1 @ lit '' minute read'' = lit ''1 minute read''"
  by (simp add: Number_toString_def decimal.simps digit_def lit_def)

lemma label_2: "Number_toString 2 @ lit '' minute read'' = lit ''2 minute read''"
  by (simp add: Number_toString_def decimal.simps digit_def lit_def)

section \<open>The claims\<close>

text \<open>
  C1, as amended. The claim is that \<open>split\<close> takes a run of whitespace as one separator,
  so that the word count is that of the specification's rule. The code splits on \<open>/\s/g\<close>,
  one whitespace code unit at a time: the word count is the count of the specification's
  rule (the number of maximal whitespace runs plus one) plus the number of whitespace code
  units that directly follow another one. Each of those adds an empty token, so the two
  counts agree exactly on the strings without adjacent whitespace.
\<close>

theorem noOfWords_per_whitespace:
  "returns (noOfWords t h) = Some (spec_word_count t + ws_adjacent t) \<and>
   spec_word_count t = ws_runs t + 1"
  by (simp add: returns_noOfWords spec_word_count_runs count_ws_runs)

text \<open>
  The claim C1 as stated fails on \<open>"a  b"\<close> (two spaces): the tokens are \<open>"a"\<close>, \<open>""\<close>
  and \<open>"b"\<close>, the word count is 3, while there is one run of whitespace and the rule of
  the specification counts 2 words.
\<close>

theorem noOfWords_runs_counterexample:
  "returns (String_split (lit ''a  b'') 0 [\<lparr>lastIndex = 0\<rparr>]) = Some [lit ''a'', [], lit ''b''] \<and>
   returns (noOfWords (lit ''a  b'') []) = Some 3 \<and>
   spec_word_count (lit ''a  b'') = 2 \<and>
   ws_runs (lit ''a  b'') = 1"
proof -
  have "returns (String_split (lit ''a  b'') 0 [\<lparr>lastIndex = 0\<rparr>]) = Some [lit ''a'', [], lit ''b'']"
    using String_split_tokens[of "lit ''a  b''" 0 "[\<lparr>lastIndex = 0\<rparr>]"]
    by (auto simp: returns_def tokens_def lit_def is_ws_def)
  moreover have "returns (noOfWords (lit ''a  b'') []) = Some 3"
    by (simp add: returns_noOfWords count_ws_def lit_def is_ws_def)
  moreover have "spec_word_count (lit ''a  b'') = 2"
    by (simp add: spec_word_count_def lit_def is_ws_def)
  moreover have "ws_runs (lit ''a  b'') = 1"
    by (simp add: lit_def is_ws_def)
  ultimately show ?thesis by simp
qed

text \<open>
  C2, as amended. For every string that starts and ends with a word and whose words are
  separated by exactly one whitespace code unit each, with \<open>W\<close> its number of words
  (maximal runs of non-whitespace), the minute value in the returned string is the ceiling
  of \<open>W / 200\<close>.
\<close>

theorem readTime_single_separated:
  "single_separated t \<Longrightarrow>
   returns (readTime t h) = Some \<lceil>real (word_runs t) / 200\<rceil> \<and>
   returns (generateReadingTime t h) =
     Some (Number_toString \<lceil>real (word_runs t) / 200\<rceil> @ lit '' minute read'')"
  by (simp add: returns_readTime returns_generateReadingTime single_separated_words)

theorem readTime_single_separated_witness:
  "single_separated (lit ''hello big world'') \<and>
   word_runs (lit ''hello big world'') = 3 \<and>
   returns (readTime (lit ''hello big world'') []) = Some 1 \<and>
   returns (generateReadingTime (lit ''hello big world'') []) = Some (lit ''1 minute read'')"
proof -
  have s: "single_separated (lit ''hello big world'')"
    by (simp add: single_separated_def lit_def is_ws_def)
  have w: "word_runs (lit ''hello big world'') = 3"
    by (simp add: lit_def is_ws_def)
  have c: "\<lceil>real 3 / 200\<rceil> = 1" unfolding ceil_200 by simp
  from readTime_single_separated[OF s, of "[]"] show ?thesis
    unfolding w c label_1 using s w by blast
qed

text \<open>
  The claim C2 as stated fails on 101 words \<open>"a"\<close> with two spaces between neighbours:
  the string is not empty and has \<open>W = 101\<close> words, the ceiling of \<open>101 / 200\<close> is 1, and
  the call returns \<open>"2 minute read"\<close>, since \<open>split\<close> yields 201 tokens.
\<close>

theorem readTime_words_counterexample:
  "join_with (lit ''  '') (replicate 101 (lit ''a'')) \<noteq> [] \<and>
   word_runs (join_with (lit ''  '') (replicate 101 (lit ''a''))) = 101 \<and>
   \<lceil>real (word_runs (join_with (lit ''  '') (replicate 101 (lit ''a'')))) / 200\<rceil> = 1 \<and>
   returns (readTime (join_with (lit ''  '') (replicate 101 (lit ''a''))) []) = Some 2 \<and>
   returns (generateReadingTime (join_with (lit ''  '') (replicate 101 (lit ''a''))) [])
     = Some (lit ''2 minute read'')"
proof -
  let ?T = "join_with (lit ''  '') (replicate 101 (lit ''a''))"
  have w: "word_runs ?T = 101" by code_simp
  have ne: "?T \<noteq> []" using w by auto
  have c1: "\<lceil>real 101 / 200\<rceil> = 1" unfolding ceil_200 by simp
  have ws: "count_ws ?T = 200"
    unfolding count_ws_join_replicate by (simp add: count_ws_def lit_def is_ws_def)
  have c2: "\<lceil>real (200 + 1) / 200\<rceil> = 2" unfolding ceil_200_Suc by simp
  have r: "returns (readTime ?T []) = Some 2"
    unfolding returns_readTime ws c2 by simp
  have g: "returns (generateReadingTime ?T []) = Some (lit ''2 minute read'')"
    unfolding returns_generateReadingTime ws c2 label_2 by simp
  show ?thesis unfolding w c1 using ne r g by simp
qed

text \<open>
  C3. Applied to the empty string, \<open>generateReadingTime\<close> returns exactly
  \<open>"1 minute read"\<close>: \<open>split\<close> yields the single token \<open>""\<close>, so the word count is 1,
  and the ceiling of \<open>1/200\<close> is 1. This holds in every store.
\<close>

theorem generateReadingTime_empty:
  "returns (String_split [] rx h) = Some [[]] \<and>
   returns (noOfWords [] h) = Some 1 \<and>
   returns (readTime [] h) = Some 1 \<and>
   returns (generateReadingTime [] h) = Some (lit ''1 minute read'')"
proof -
  have "returns (String_split [] rx h) = Some [[]]"
    using String_split_tokens[of "[]" rx h] by (auto simp: returns_def tokens_def)
  moreover have "returns (noOfWords [] h) = Some 1"
    by (simp add: returns_noOfWords count_ws_def)
  moreover have "returns (readTime [] h) = Some 1"
    unfolding returns_readTime ceil_200_Suc by (simp add: count_ws_def)
  moreover have "returns (generateReadingTime [] h) = Some (lit ''1 minute read'')"
    unfolding returns_generateReadingTime ceil_200_Suc
    by (simp add: count_ws_def Number_toString_def decimal.simps digit_def lit_def)
  ultimately show ?thesis by simp
qed

text \<open>
  C4, as amended. Monotonicity holds for the word count the code computes (one token
  more than there are whitespace code units): if the call on \<open>A\<close> counts no more words
  than the call on \<open>B\<close>, the minute estimate for \<open>A\<close> is at most the one for \<open>B\<close>.
\<close>

theorem readTime_mono:
  assumes "returns (noOfWords A h) = Some m" and "returns (noOfWords B h') = Some n" and "m \<le> n"
  shows "\<exists>a b. returns (readTime A h) = Some a \<and> returns (readTime B h') = Some b \<and> a \<le> b"
proof -
  have m: "m = count_ws A + 1" and n: "n = count_ws B + 1"
    using assms by (simp_all add: returns_noOfWords)
  have "real (count_ws A + 1) / 200 \<le> real (count_ws B + 1) / 200"
    using assms(3) unfolding m n by simp
  then have "\<lceil>real (count_ws A + 1) / 200\<rceil> \<le> \<lceil>real (count_ws B + 1) / 200\<rceil>"
    by (rule ceiling_mono)
  then show ?thesis by (simp add: returns_readTime)
qed

theorem readTime_mono_witness:
  "returns (noOfWords (lit ''a b'') []) = Some 2 \<and>
   returns (noOfWords (lit ''a b c'') []) = Some 3 \<and> (2::nat) \<le> 3 \<and>
   (\<exists>a b. returns (readTime (lit ''a b'') []) = Some a \<and>
          returns (readTime (lit ''a b c'') []) = Some b \<and> a \<le> b)"
proof -
  have 1: "returns (noOfWords (lit ''a b'') []) = Some 2"
    by (simp add: returns_noOfWords count_ws_def lit_def is_ws_def)
  have 2: "returns (noOfWords (lit ''a b c'') []) = Some 3"
    by (simp add: returns_noOfWords count_ws_def lit_def is_ws_def)
  have 3: "(2::nat) \<le> 3" by simp
  from readTime_mono[OF 1 2 3] 1 2 3 show ?thesis by blast
qed

text \<open>
  The claim C4 as stated, with words counted by the rule of the specification, fails:
  101 words two spaces apart are fewer words than 102 words one space apart, and get the
  estimate 2 against 1.
\<close>

theorem readTime_mono_runs_counterexample:
  "spec_word_count (join_with (lit ''  '') (replicate 101 (lit ''a''))) = 101 \<and>
   spec_word_count (join_with (lit '' '') (replicate 102 (lit ''a''))) = 102 \<and>
   returns (readTime (join_with (lit ''  '') (replicate 101 (lit ''a''))) []) = Some 2 \<and>
   returns (readTime (join_with (lit '' '') (replicate 102 (lit ''a''))) []) = Some 1"
proof -
  let ?A = "join_with (lit ''  '') (replicate 101 (lit ''a''))"
  let ?B = "join_with (lit '' '') (replicate 102 (lit ''a''))"
  have a: "spec_word_count ?A = 101" by code_simp
  have b: "spec_word_count ?B = 102" by code_simp
  have wa: "count_ws ?A = 200"
    unfolding count_ws_join_replicate by (simp add: count_ws_def lit_def is_ws_def)
  have wb: "count_ws ?B = 101"
    unfolding count_ws_join_replicate by (simp add: count_ws_def lit_def is_ws_def)
  have ca: "\<lceil>real (200 + 1) / 200\<rceil> = 2" unfolding ceil_200_Suc by simp
  have cb: "\<lceil>real (101 + 1) / 200\<rceil> = 1" unfolding ceil_200_Suc by simp
  have ra: "returns (readTime ?A []) = Some 2" unfolding returns_readTime wa ca by simp
  have rb: "returns (readTime ?B []) = Some 1" unfolding returns_readTime wb cb by simp
  show ?thesis using a b ra rb by simp
qed

text \<open>
  C5. For 200 words with a single space between neighbours the call returns
  \<open>"1 minute read"\<close>, and for 201 such words it returns \<open>"2 minute read"\<close>, whatever the
  words are.
\<close>

theorem generateReadingTime_200_201:
  assumes "list_all is_word ws" and "length ws = 200"
    and "list_all is_word vs" and "length vs = 201"
  shows "returns (generateReadingTime (join_with (lit '' '') ws) h) = Some (lit ''1 minute read'') \<and>
         returns (generateReadingTime (join_with (lit '' '') vs) h) = Some (lit ''2 minute read'')"
proof -
  have w: "count_ws (join_with (lit '' '') ws) = 199"
    using assms(1,2) by (simp add: count_ws_join_words)
  have v: "count_ws (join_with (lit '' '') vs) = 200"
    using assms(3,4) by (simp add: count_ws_join_words)
  have cw: "\<lceil>real (199 + 1) / 200\<rceil> = 1" unfolding ceil_200_Suc by simp
  have cv: "\<lceil>real (200 + 1) / 200\<rceil> = 2" unfolding ceil_200_Suc by simp
  show ?thesis
    unfolding returns_generateReadingTime w v cw cv label_1 label_2 by simp
qed

theorem generateReadingTime_200_201_witness:
  "list_all is_word (replicate 200 (lit ''word'')) \<and> length (replicate 200 (lit ''word'')) = 200 \<and>
   list_all is_word (replicate 201 (lit ''word'')) \<and> length (replicate 201 (lit ''word'')) = 201 \<and>
   returns (generateReadingTime (join_with (lit '' '') (replicate 200 (lit ''word''))) []) =
     Some (lit ''1 minute read'') \<and>
   returns (generateReadingTime (join_with (lit '' '') (replicate 201 (lit ''word''))) []) =
     Some (lit ''2 minute read'')"
proof -
  have a: "list_all is_word (replicate 200 (lit ''word''))"
    by (simp add: list_all_iff is_word_w)
  have b: "length (replicate 200 (lit ''word'')) = 200" by simp
  have c: "list_all is_word (replicate 201 (lit ''word''))"
    by (simp add: list_all_iff is_word_w)
  have d: "length (replicate 201 (lit ''word'')) = 201" by simp
  from generateReadingTime_200_201[OF a b c d, of "[]"] a b c d show ?thesis by blast
qed

text \<open>
  C6. For every input string (and every store), the string \<open>generateReadingTime\<close> returns
  matches the pattern \<open>^\d+ minute read$\<close>: one or more decimal digits, one space, the
  text \<open>minute read\<close>, and nothing else.
\<close>

theorem generateReadingTime_pattern:
  "\<exists>s ds. returns (generateReadingTime t h) = Some s \<and> matches_minute_read s \<and>
          s = ds @ lit '' minute read'' \<and> ds \<noteq> [] \<and> list_all is_digit ds"
proof -
  let ?n = "nat \<lceil>real (count_ws t + 1) / 200\<rceil>"
  have "Number_toString \<lceil>real (count_ws t + 1) / 200\<rceil> = decimal ?n"
    using readTime_pos[of "count_ws t"] by (simp add: Number_toString_def)
  then have "returns (generateReadingTime t h) = Some (decimal ?n @ lit '' minute read'')"
    by (simp add: returns_generateReadingTime)
  then show ?thesis
    using matches_decimal[of ?n] decimal_nonempty[of ?n] decimal_digits[of ?n] by blast
qed

text \<open>
  C7. \<open>generateReadingTime\<close> is total: for every string, the empty string and strings of
  whitespace and of any length included, and in every store, the call returns a string.
  The loop of \<open>split\<close> terminates, and no step has an error branch.
\<close>

theorem generateReadingTime_returns:
  "\<exists>s h'. generateReadingTime t h = Some (s, h')"
  using generateReadingTime_eq[of t h] by blast

text \<open>
  C8. \<open>generateReadingTime\<close> is deterministic and free of side effects: two calls in a row
  with the same input return the same string, each call leaves every RegExp object that
  existed before it as it was (the store it returns starts with the store it was given),
  and the string returned does not depend on the store the call starts in.
\<close>

theorem generateReadingTime_deterministic:
  "(\<exists>s h1 h2. generateReadingTime t h = Some (s, h1) \<and> generateReadingTime t h1 = Some (s, h2) \<and>
       take (length h) h1 = h \<and> take (length h1) h2 = h1) \<and>
   returns (generateReadingTime t h) = returns (generateReadingTime t h')"
proof -
  let ?s = "Number_toString \<lceil>real (count_ws t + 1) / 200\<rceil> @ lit '' minute read''"
  obtain k where 1: "generateReadingTime t h = Some (?s, h @ [\<lparr>lastIndex = 0\<rparr>, \<lparr>lastIndex = k\<rparr>])"
    using generateReadingTime_eq by blast
  let ?h1 = "h @ [\<lparr>lastIndex = 0\<rparr>, \<lparr>lastIndex = k\<rparr>]"
  obtain j where 2: "generateReadingTime t ?h1 = Some (?s, ?h1 @ [\<lparr>lastIndex = 0\<rparr>, \<lparr>lastIndex = j\<rparr>])"
    using generateReadingTime_eq by blast
  have "take (length h) ?h1 = h" by simp
  moreover have "take (length ?h1) (?h1 @ [\<lparr>lastIndex = 0\<rparr>, \<lparr>lastIndex = j\<rparr>]) = ?h1" by simp
  ultimately have "\<exists>s h1 h2. generateReadingTime t h = Some (s, h1) \<and> generateReadingTime t h1 = Some (s, h2) \<and>
       take (length h) h1 = h \<and> take (length h1) h2 = h1"
    using 1 2 by blast
  then show ?thesis by (simp add: returns_generateReadingTime)
qed

text \<open>
  C9. For every input string the word count the code computes is the number of
  whitespace code units plus one, so the call returns the ceiling of \<open>(ws + 1) / 200\<close>
  followed by \<open>minute read\<close>; two inputs with the same number of whitespace code units
  get the same output, whatever else they contain.
\<close>

theorem generateReadingTime_count_ws:
  "returns (noOfWords t h) = Some (count_ws t + 1) \<and>
   returns (generateReadingTime t h) =
     Some (Number_toString \<lceil>real (count_ws t + 1) / 200\<rceil> @ lit '' minute read'') \<and>
   (count_ws a = count_ws b \<longrightarrow>
      returns (generateReadingTime a h) = returns (generateReadingTime b h'))"
  by (simp add: returns_noOfWords returns_generateReadingTime)

theorem generateReadingTime_count_ws_witness:
  "count_ws (lit ''to be'') = count_ws [0x0031, 0x000A, 0x0032] \<and>
   returns (generateReadingTime (lit ''to be'') []) =
   returns (generateReadingTime [0x0031, 0x000A, 0x0032] [\<lparr>lastIndex = 5\<rparr>])"
proof -
  have e: "count_ws (lit ''to be'') = count_ws [0x0031, 0x000A, 0x0032]"
    by (simp add: count_ws_def lit_def is_ws_def)
  from generateReadingTime_count_ws
    [of "lit ''to be''" "[]" "lit ''to be''" "[0x0031, 0x000A, 0x0032]" "[\<lparr>lastIndex = 5\<rparr>]"] e
  show ?thesis by blast
qed

text \<open>
  C10. For every input string the integer in the returned string is at least 1: the word
  count is at least 1, so is the ceiling of the word count over 200, and the result is
  never \<open>"0 minute read"\<close>.
\<close>

theorem generateReadingTime_at_least_one:
  "\<exists>n r. returns (noOfWords t h) = Some n \<and> 1 \<le> n \<and>
         returns (readTime t h) = Some r \<and> 1 \<le> r \<and>
         returns (generateReadingTime t h) = Some (Number_toString r @ lit '' minute read'') \<and>
         returns (generateReadingTime t h) \<noteq> Some (lit ''0 minute read'')"
proof -
  let ?r = "\<lceil>real (count_ws t + 1) / 200\<rceil>"
  have pos: "1 \<le> ?r" by (rule readTime_pos)
  have "Number_toString ?r @ lit '' minute read'' \<noteq> lit ''0 minute read''"
  proof
    assume "Number_toString ?r @ lit '' minute read'' = lit ''0 minute read''"
    then have "decimal (nat ?r) @ lit '' minute read'' = [0x0030] @ lit '' minute read''"
      using pos by (simp add: Number_toString_def lit_def)
    then have "decimal (nat ?r) = [0x0030]" by (simp only: append_same_eq)
    then have "nat ?r = 0" by (rule decimal_single_zero)
    with pos show False by simp
  qed
  then show ?thesis
    using pos by (simp add: returns_noOfWords returns_readTime returns_generateReadingTime)
qed

end
